theory Spec2Isabelle
  imports Complex_Main
begin

section \<open>Formatting helpers\<close>

text \<open>
  \<^verbatim>\<open>const secondUnits = { d: 86400, h: 3600, m: 60, s: 1 }\<close>. The loop of
  \<^verbatim>\<open>humanizeSeconds\<close> walks \<^verbatim>\<open>Object.keys(secondUnits)\<close>, which lists string keys in
  insertion order, so the table is an association list in that order.

  JavaScript numbers are idealised as real numbers in this development; rounding of
  the floating-point operations is not modelled.
\<close>

definition secondUnits :: "(string \<times> real) list" where
  "secondUnits = [(''d'', 86400), (''h'', 3600), (''m'', 60), (''s'', 1)]"

text \<open>
  Decimal rendering of an integer-valued number, as the template literal
  \<^verbatim>\<open>`${amount}`\<close> renders it (for magnitudes below \<open>10^21\<close>, where JavaScript
  does not switch to exponent notation).
\<close>

definition digit_char :: "nat \<Rightarrow> char" where
  "digit_char d = ''0123456789'' ! d"

fun digits :: "nat \<Rightarrow> string" where
  "digits n = (if n < 10 then [digit_char n] else digits (n div 10) @ [digit_char (n mod 10)])"

declare digits.simps [simp del]

definition toString :: "int \<Rightarrow> string" where
  "toString i = (if i < 0 then ''-'' @ digits (nat (- i)) else digits (nat i))"

text \<open>
  The remainder operator \<^verbatim>\<open>%\<close> of JavaScript truncates the quotient towards zero, so the
  result carries the sign of the dividend.
\<close>

definition js_trunc :: "real \<Rightarrow> int" where
  "js_trunc x = (if x < 0 then \<lceil>x\<rceil> else \<lfloor>x\<rfloor>)"

definition js_rem :: "real \<Rightarrow> real \<Rightarrow> real" where
  "js_rem a b = a - b * of_int (js_trunc (a / b))"

text \<open>
  One pass of the loop body of \<^verbatim>\<open>humanizeSeconds\<close> over the state
  \<open>(string, number)\<close>; \<^verbatim>\<open>if (amount)\<close> is the test for a non-zero amount and
  \<^verbatim>\<open>if (string.length)\<close> the test for a non-empty string.
\<close>

definition humanizeSeconds_step :: "string \<times> real \<Rightarrow> string \<times> real \<Rightarrow> string \<times> real" where
  "humanizeSeconds_step entry st =
     (let unit = fst entry;
          conversion = snd entry;
          string = fst st;
          number = snd st;
          amount = \<lfloor>number / conversion\<rfloor>;
          string1 = (if amount \<noteq> 0
                     then (if string \<noteq> [] then string @ '', '' else string)
                          @ toString amount @ '' '' @ unit
                     else string)
      in (string1, js_rem number conversion))"

fun humanizeSeconds_loop :: "(string \<times> real) list \<Rightarrow> string \<times> real \<Rightarrow> string \<times> real" where
  "humanizeSeconds_loop [] st = st"
| "humanizeSeconds_loop (entry # rest) st = humanizeSeconds_loop rest (humanizeSeconds_step entry st)"

definition humanizeSeconds :: "real \<Rightarrow> string" where
  "humanizeSeconds number = fst (humanizeSeconds_loop secondUnits ([], number))"

text \<open>
  The specification's wording of the same function: the whole seconds are decomposed
  with the divisors 86400, 3600, 60 and 1, the components that are not zero are
  kept in descending unit order, and they are joined by a comma and a space.
\<close>

fun joinWith :: "string \<Rightarrow> string list \<Rightarrow> string" where
  "joinWith sep [] = []"
| "joinWith sep [x] = x"
| "joinWith sep (x # y # ys) = x @ sep @ joinWith sep (y # ys)"

definition components :: "int \<Rightarrow> (int \<times> string) list" where
  "components t =
     [(t div 86400, ''d''), (t mod 86400 div 3600, ''h''),
      (t mod 3600 div 60, ''m''), (t mod 60 div 1, ''s'')]"

definition humanizeDuration_spec :: "real \<Rightarrow> string" where
  "humanizeDuration_spec seconds =
     joinWith '', ''
       (map (\<lambda>p. toString (fst p) @ '' '' @ snd p)
            (filter (\<lambda>p. fst p \<noteq> 0) (components \<lfloor>seconds\<rfloor>)))"

text \<open>
  What one loop pass appends to the string, as a function of the amount; used to
  relate the loop to the specification's wording.
\<close>

definition emit :: "string \<Rightarrow> int \<Rightarrow> string \<Rightarrow> string" where
  "emit s a u =
     (if a \<noteq> 0 then (if s \<noteq> [] then s @ '', '' else s) @ toString a @ '' '' @ u else s)"


section \<open>Coordinates and the haversine distance\<close>

text \<open>
  A \<^verbatim>\<open>Date\<close> is its time value, the milliseconds since the epoch that
  \<^verbatim>\<open>getTime()\<close> returns.
\<close>

datatype jsdate = Date (getTime: int)

record coordinate =
  lat :: real
  lon :: real
  timestamp :: jsdate

text \<open>
  \<^verbatim>\<open>constructor(lat, lon, timestamp = null)\<close> with
  \<^verbatim>\<open>this.timestamp = timestamp || new Date()\<close>. A missing, \<^verbatim>\<open>null\<close> or
  \<^verbatim>\<open>undefined\<close> timestamp is \<open>None\<close>; a \<^verbatim>\<open>Date\<close> object is always truthy.
  The reading of the clock by \<^verbatim>\<open>new Date()\<close> is the parameter \<open>now\<close>.
\<close>

definition Coordinate_new :: "jsdate \<Rightarrow> real \<Rightarrow> real \<Rightarrow> jsdate option \<Rightarrow> coordinate" where
  "Coordinate_new now la lo ts =
     \<lparr>lat = la, lon = lo, timestamp = (case ts of None \<Rightarrow> now | Some t \<Rightarrow> t)\<rparr>"

text \<open>
  The distance is the formula of the source over the real numbers, with exact
  arithmetic. The rounding of the double-precision operations is not modelled, and
  neither is \<^verbatim>\<open>NaN\<close>: in the code the rounded \<^verbatim>\<open>a\<close> can exceed 1 for points
  that are nearly antipodal, and \<^verbatim>\<open>Math.sqrt(1 - a)\<close> is then \<^verbatim>\<open>NaN\<close>. No
  property below depends on the value of a distance.

  \<^verbatim>\<open>Math.atan2(y, x)\<close> on real arguments:
\<close>

definition atan2 :: "real \<Rightarrow> real \<Rightarrow> real" where
  "atan2 y x =
     (if 0 < x then arctan (y / x)
      else if x < 0 then (if 0 \<le> y then arctan (y / x) + pi else arctan (y / x) - pi)
      else if 0 < y then pi / 2
      else if y < 0 then - (pi / 2)
      else 0)"

definition haversine :: "coordinate \<Rightarrow> coordinate \<Rightarrow> real" where
  "haversine pointA pointB =
     (let R = 6371;
          pointALatRad = (lat pointA * pi) / 180;
          pointALonRad = (lon pointA * pi) / 180;
          pointBLatRad = (lat pointB * pi) / 180;
          pointBLonRad = (lon pointB * pi) / 180;
          latDelta = pointBLatRad - pointALatRad;
          lonDelta = pointBLonRad - pointALonRad;
          a = sin (latDelta / 2) * sin (latDelta / 2) +
              cos pointALatRad * cos pointBLatRad * sin (lonDelta / 2) * sin (lonDelta / 2);
          c = 2 * atan2 (sqrt a) (sqrt (1 - a));
          distance = R * c
      in distance)"


section \<open>Routes\<close>

text \<open>The \<^verbatim>\<open>id\<close> of a route is \<^verbatim>\<open>null\<close> (\<open>None\<close>) or a number.\<close>

record route =
  route_id :: "int option"
  created :: jsdate
  coordinates :: "coordinate list"

text \<open>
  A property that may be absent from an object, hold \<^verbatim>\<open>null\<close>, or hold a number:
  the three states of \<^verbatim>\<open>id\<close> that \<^verbatim>\<open>insertRoute\<close> and the \<^verbatim>\<open>Route\<close>
  constructor tell apart.
\<close>

datatype id_field = Missing | IsNull | Number int

text \<open>
  \<^verbatim>\<open>constructor(id = null, created = null, coordinates = null)\<close>: the default of
  \<^verbatim>\<open>id\<close> applies to \<^verbatim>\<open>undefined\<close> only, \<^verbatim>\<open>created || new Date()\<close> keeps every
  \<^verbatim>\<open>Date\<close>, and \<^verbatim>\<open>coordinates || []\<close> keeps every array, the empty one too.
\<close>

definition Route_new :: "jsdate \<Rightarrow> id_field \<Rightarrow> jsdate option \<Rightarrow> coordinate list option \<Rightarrow> route" where
  "Route_new now i cr cs =
     \<lparr>route_id = (case i of Missing \<Rightarrow> None | IsNull \<Rightarrow> None | Number n \<Rightarrow> Some n),
      created = (case cr of None \<Rightarrow> now | Some d \<Rightarrow> d),
      coordinates = (case cs of None \<Rightarrow> [] | Some xs \<Rightarrow> xs)\<rparr>"

definition add :: "jsdate \<Rightarrow> route \<Rightarrow> real \<Rightarrow> real \<Rightarrow> route" where
  "add now r la lo = r\<lparr>coordinates := coordinates r @ [Coordinate_new now la lo None]\<rparr>"

function getLength_loop :: "coordinate list \<Rightarrow> nat \<Rightarrow> real \<Rightarrow> real" where
  "getLength_loop cs i totalDistance =
     (if i < length cs
      then getLength_loop cs (i + 1) (totalDistance + haversine (cs ! (i - 1)) (cs ! i))
      else totalDistance)"
  by pat_completeness auto
termination
  by (relation "measure (\<lambda>(cs, i, t). length cs - i)") auto

declare getLength_loop.simps [simp del]

definition getLength :: "route \<Rightarrow> real" where
  "getLength r =
     (let totalDistance = 0
      in if length (coordinates r) < 2 then totalDistance
         else getLength_loop (coordinates r) 1 totalDistance)"

definition getDuration :: "route \<Rightarrow> real" where
  "getDuration r =
     (if length (coordinates r) < 2 then 0
      else (of_int (getTime (timestamp (coordinates r ! (length (coordinates r) - 1)))) -
            of_int (getTime (timestamp (coordinates r ! 0)))) / 1000)"

text \<open>
  A division in JavaScript does not fail on a zero divisor: it yields an infinity or
  \<^verbatim>\<open>NaN\<close>. The quotient of \<^verbatim>\<open>getAvgSpeed\<close> is therefore a value of its own type.
\<close>

datatype jsnumber = Finite real | PosInfinity | NegInfinity | NaN

definition js_divide :: "real \<Rightarrow> real \<Rightarrow> jsnumber" where
  "js_divide a b =
     (if b = 0 then (if a = 0 then NaN else if 0 < a then PosInfinity else NegInfinity)
      else Finite (a / b))"

definition getAvgSpeed :: "route \<Rightarrow> jsnumber" where
  "getAvgSpeed r =
     (if length (coordinates r) < 2 then Finite 0
      else js_divide (getLength r) (getDuration r / 3600))"

text \<open>
  \<^verbatim>\<open>Array.prototype.slice(start, end)\<close>: a negative index counts from the end, and
  both bounds are clamped to the array.
\<close>

definition js_slice :: "int \<Rightarrow> int \<Rightarrow> 'a list \<Rightarrow> 'a list" where
  "js_slice start end xs =
     (let len = int (length xs);
          k = (if start < 0 then max (len + start) 0 else min start len);
          final = (if end < 0 then max (len + end) 0 else min end len)
      in take (nat (final - k)) (drop (nat k) xs))"

text \<open>
  The two locals of \<^verbatim>\<open>toHtml\<close>: the coordinates that become list items, in the order
  of the items, and the elision item.
\<close>

definition toHtml_coordinates :: "route \<Rightarrow> coordinate list" where
  "toHtml_coordinates r = rev (js_slice (- 10) (- 1) (coordinates r))"

definition toHtml_ellipsis :: "route \<Rightarrow> string" where
  "toHtml_ellipsis r = (if length (coordinates r) > 9 then ''<li>...</li>'' else [])"


section \<open>Plain objects\<close>

text \<open>
  The objects that travel to and from the object store: every property that a
  constructor tests with \<^verbatim>\<open>||\<close> may be missing.
\<close>

record plain_coordinate =
  p_lat :: real
  p_lon :: real
  p_timestamp :: "jsdate option"

record plain_route =
  p_id :: id_field
  p_created :: "jsdate option"
  p_coordinates :: "plain_coordinate list"

text \<open>
  \<^verbatim>\<open>route = { ...route }\<close> copies the own properties \<^verbatim>\<open>id\<close>, \<^verbatim>\<open>created\<close> and
  \<^verbatim>\<open>coordinates\<close>; \<^verbatim>\<open>if (route.id === null) delete route.id\<close> then removes a
  \<^verbatim>\<open>null\<close> id from the copy.
\<close>

definition plain_of_coordinate :: "coordinate \<Rightarrow> plain_coordinate" where
  "plain_of_coordinate c = \<lparr>p_lat = lat c, p_lon = lon c, p_timestamp = Some (timestamp c)\<rparr>"

definition insertRoute_copy :: "route \<Rightarrow> plain_route" where
  "insertRoute_copy r =
     \<lparr>p_id = (case route_id r of None \<Rightarrow> IsNull | Some n \<Rightarrow> Number n),
      p_created = Some (created r),
      p_coordinates = map plain_of_coordinate (coordinates r)\<rparr>"

definition insertRoute_record :: "route \<Rightarrow> plain_route" where
  "insertRoute_record r =
     (let copy = insertRoute_copy r
      in if p_id copy = IsNull then copy\<lparr>p_id := Missing\<rparr> else copy)"

definition fromPlainObject :: "jsdate \<Rightarrow> plain_route \<Rightarrow> route" where
  "fromPlainObject now obj =
     (let coordinates = map (\<lambda>coord. Coordinate_new now (p_lat coord) (p_lon coord) (p_timestamp coord))
                            (p_coordinates obj);
          route = Route_new now (p_id obj) (p_created obj) (Some coordinates)
      in route)"


section \<open>The route database\<close>

text \<open>
  \<^verbatim>\<open>RouteDatabase\<close> talks to the browser's IndexedDB. The database is a state that
  every call receives and returns: the records of the object store \<^verbatim>\<open>routes\<close> in key
  order, the current number of the store's key generator, and the number of
  connections that are open. The store is the one that \<^verbatim>\<open>#open\<close> creates, with
  \<^verbatim>\<open>keyPath: "id"\<close> and \<^verbatim>\<open>autoIncrement: true\<close>.

  What the platform decides is an argument of the model: a fault of
  \<^verbatim>\<open>indexedDB.open\<close> (the request fires \<^verbatim>\<open>onerror\<close>) and a fault of the
  request inside the transaction (the request fires \<^verbatim>\<open>onerror\<close> and the transaction
  aborts, so nothing is written). The transaction is taken to commit once its only
  request has succeeded. A fault is the exception that the platform puts into the
  \<^verbatim>\<open>error\<close> property of the failed request.
\<close>

record idb =
  records :: "(int \<times> plain_route) list"
  keyGenerator :: int
  connections :: nat

text \<open>
  A \<^verbatim>\<open>DOMException\<close> is known by its name (\<^verbatim>\<open>ConstraintError\<close>,
  \<^verbatim>\<open>VersionError\<close>, ...); its message is the platform's own wording.
\<close>

datatype dom_exception = DOMException string

datatype jsval = Undefined | NumV int | StrV string | ExnV dom_exception

text \<open>
  The reason of a rejection is an exception that was thrown, or the string that a
  handler builds with \<^verbatim>\<open>"..." + value\<close>: \<open>Message prefix value\<close>. The characters
  that the concatenation appends for a value are \<^verbatim>\<open>undefined\<close> for
  \<^verbatim>\<open>undefined\<close> and, for an exception, the rendering that the platform gives it.
\<close>

datatype reason = Exception dom_exception | Message string jsval

datatype 'a promise = Fulfilled 'a | Rejected reason

definition js_string :: "(dom_exception \<Rightarrow> string) \<Rightarrow> jsval \<Rightarrow> string" where
  "js_string render v =
     (case v of
        Undefined \<Rightarrow> ''undefined''
      | NumV n \<Rightarrow> toString n
      | StrV s \<Rightarrow> s
      | ExnV e \<Rightarrow> render e)"

text \<open>
  The failed request that an \<^verbatim>\<open>onerror\<close> handler reads, as \<^verbatim>\<open>event.target\<close>
  or as \<^verbatim>\<open>request\<close>: an \<^verbatim>\<open>IDBRequest\<close> holds the exception in its property
  \<^verbatim>\<open>error\<close> and has no property \<^verbatim>\<open>errorCode\<close>. Reading a property that an
  object does not have gives \<^verbatim>\<open>undefined\<close>.
\<close>

definition failed_request :: "dom_exception \<Rightarrow> (string \<times> jsval) list" where
  "failed_request e = [(''readyState'', StrV ''done''), (''error'', ExnV e)]"

definition get_property :: "(string \<times> jsval) list \<Rightarrow> string \<Rightarrow> jsval" where
  "get_property obj name = (case map_of obj name of None \<Rightarrow> Undefined | Some v \<Rightarrow> v)"

definition open_db :: "dom_exception option \<Rightarrow> idb \<Rightarrow> reason + idb" where
  "open_db fault db =
     (case fault of
        Some e \<Rightarrow> Inl (Message ''Database error: '' (get_property (failed_request e) ''errorCode''))
      | None \<Rightarrow> Inr (db\<lparr>connections := connections db + 1\<rparr>))"

definition close_db :: "idb \<Rightarrow> idb" where
  "close_db db = db\<lparr>connections := connections db - 1\<rparr>"

fun put_record :: "int \<times> plain_route \<Rightarrow> (int \<times> plain_route) list \<Rightarrow> (int \<times> plain_route) list" where
  "put_record e [] = [e]"
| "put_record e (x # xs) = (if fst e < fst x then e # x # xs else x # put_record e xs)"

text \<open>
  \<^verbatim>\<open>store.add(value)\<close> on a store with a key path and a key generator. A value
  whose \<^verbatim>\<open>id\<close> is \<^verbatim>\<open>null\<close> has no valid key and the call throws. The key of
  a value with a numeric \<^verbatim>\<open>id\<close> is that number; a value without \<^verbatim>\<open>id\<close>
  receives the generator's current number, as long as the generator is not exhausted.
  A key that is taken fails the request. Otherwise the value is stored under its key,
  with the key as its \<^verbatim>\<open>id\<close>, and the generator moves past the key.
\<close>

datatype add_outcome = Thrown dom_exception | ReqError dom_exception | ReqSuccess int

definition add_key :: "plain_route \<Rightarrow> idb \<Rightarrow> int option" where
  "add_key v db =
     (case p_id v of
        Number k \<Rightarrow> Some k
      | _ \<Rightarrow> if keyGenerator db > 2 ^ 53 then None else Some (keyGenerator db))"

definition store_add :: "dom_exception option \<Rightarrow> plain_route \<Rightarrow> idb \<Rightarrow> add_outcome \<times> idb" where
  "store_add fault v db =
     (if p_id v = IsNull then (Thrown (DOMException ''DataError''), db)
      else case fault of
             Some e \<Rightarrow> (ReqError e, db)
           | None \<Rightarrow>
               (case add_key v db of
                  None \<Rightarrow> (ReqError (DOMException ''ConstraintError''), db)
                | Some k \<Rightarrow>
                    if k \<in> set (map fst (records db)) then (ReqError (DOMException ''ConstraintError''), db)
                    else (ReqSuccess k,
                          db\<lparr>records := put_record (k, v\<lparr>p_id := Number k\<rparr>) (records db),
                             keyGenerator := (if keyGenerator db \<le> min k (2 ^ 53)
                                              then min k (2 ^ 53) + 1 else keyGenerator db)\<rparr>)))"

text \<open>
  The promise that \<^verbatim>\<open>insertRoute\<close> awaits. An exception of \<^verbatim>\<open>store.add\<close> inside
  the executor rejects the promise and no handler runs; \<^verbatim>\<open>onsuccess\<close> and
  \<^verbatim>\<open>onerror\<close> close the connection and settle the promise.
\<close>

definition insertRoute_request :: "dom_exception option \<Rightarrow> plain_route \<Rightarrow> idb \<Rightarrow> jsval promise \<times> idb" where
  "insertRoute_request fault v db =
     (case store_add fault v db of
        (Thrown e, db1) \<Rightarrow> (Rejected (Exception e), db1)
      | (ReqSuccess result, db1) \<Rightarrow>
          (Fulfilled (StrV (''Route added with id: '' @ toString result)), close_db db1)
      | (ReqError e, db1) \<Rightarrow>
          (Rejected (Message ''Error adding route: '' (get_property (failed_request e) ''error'')),
           close_db db1))"

text \<open>
  \<^verbatim>\<open>insertRoute\<close> after the record is prepared: \<^verbatim>\<open>await this.#open()\<close>, then
  \<^verbatim>\<open>await new Promise(...)\<close>. The function has no \<^verbatim>\<open>return\<close>, so it fulfils
  with \<^verbatim>\<open>undefined\<close> whatever the awaited promise fulfilled with.
\<close>

definition insertRoute_store :: "dom_exception option \<Rightarrow> dom_exception option \<Rightarrow> plain_route \<Rightarrow> idb \<Rightarrow> jsval promise \<times> idb" where
  "insertRoute_store openFault addFault v db =
     (case open_db openFault db of
        Inl e \<Rightarrow> (Rejected e, db)
      | Inr db1 \<Rightarrow>
          (case insertRoute_request addFault v db1 of
             (Fulfilled msg, db2) \<Rightarrow> (Fulfilled Undefined, db2)
           | (Rejected e, db2) \<Rightarrow> (Rejected e, db2)))"

definition insertRoute :: "dom_exception option \<Rightarrow> dom_exception option \<Rightarrow> route \<Rightarrow> idb \<Rightarrow> jsval promise \<times> idb" where
  "insertRoute openFault addFault r db = insertRoute_store openFault addFault (insertRoute_record r) db"

text \<open>
  \<^verbatim>\<open>listRoutes\<close>: neither handler of the \<^verbatim>\<open>getAll\<close> request closes the
  connection.
\<close>

definition listRoutes :: "jsdate \<Rightarrow> dom_exception option \<Rightarrow> dom_exception option \<Rightarrow> idb \<Rightarrow> route list promise \<times> idb" where
  "listRoutes now openFault readFault db =
     (case open_db openFault db of
        Inl e \<Rightarrow> (Rejected e, db)
      | Inr db1 \<Rightarrow>
          (case readFault of
             Some e \<Rightarrow>
               (Rejected (Message ''Error listing routes'' (get_property (failed_request e) ''error'')), db1)
           | None \<Rightarrow> (Fulfilled (map (\<lambda>route. fromPlainObject now route) (map snd (records db1))), db1)))"

definition emptyDb :: idb where
  "emptyDb = \<lparr>records = [], keyGenerator = 1, connections = 0\<rparr>"


section \<open>The caller's object\<close>

text \<open>
  Whether \<^verbatim>\<open>insertRoute\<close> changes the object it is given is a question about
  references, so here the objects live in a heap: a list of cells, an address being an
  index. A route object holds its \<^verbatim>\<open>id\<close>, its \<^verbatim>\<open>created\<close> date and the address
  of its coordinates array; the array holds the addresses of the coordinate objects.
  \<^verbatim>\<open>{ ...route }\<close> allocates a new object with the same three properties, so the
  copy shares the coordinates array with the original.
\<close>

datatype cell =
    ObjectCell id_field jsdate nat
  | ArrayCell "nat list"
  | CoordinateCell real real jsdate

type_synonym heap = "cell list"

definition heap_get :: "heap \<Rightarrow> nat \<Rightarrow> cell option" where
  "heap_get h a = (if a < length h then Some (h ! a) else None)"

definition readCoordinate :: "heap \<Rightarrow> nat \<Rightarrow> coordinate option" where
  "readCoordinate h a =
     (case heap_get h a of
        Some (CoordinateCell la lo t) \<Rightarrow> Some \<lparr>lat = la, lon = lo, timestamp = t\<rparr>
      | _ \<Rightarrow> None)"

definition readCoordinates :: "heap \<Rightarrow> nat \<Rightarrow> coordinate list option" where
  "readCoordinates h a =
     (case heap_get h a of
        Some (ArrayCell refs) \<Rightarrow> those (map (readCoordinate h) refs)
      | _ \<Rightarrow> None)"

text \<open>The route that a \<^verbatim>\<open>Route\<close> object at an address stands for.\<close>

definition readRoute :: "heap \<Rightarrow> nat \<Rightarrow> route option" where
  "readRoute h a =
     (case heap_get h a of
        Some (ObjectCell i c arr) \<Rightarrow>
          (case readCoordinates h arr of
             None \<Rightarrow> None
           | Some cs \<Rightarrow>
               (case i of
                  Missing \<Rightarrow> None
                | IsNull \<Rightarrow> Some \<lparr>route_id = None, created = c, coordinates = cs\<rparr>
                | Number n \<Rightarrow> Some \<lparr>route_id = Some n, created = c, coordinates = cs\<rparr>))
      | _ \<Rightarrow> None)"

text \<open>The structured clone that \<^verbatim>\<open>store.add\<close> takes of the object at an address.\<close>

definition structuredClone :: "heap \<Rightarrow> nat \<Rightarrow> plain_route option" where
  "structuredClone h a =
     (case heap_get h a of
        Some (ObjectCell i c arr) \<Rightarrow>
          (case readCoordinates h arr of
             None \<Rightarrow> None
           | Some cs \<Rightarrow>
               Some \<lparr>p_id = i, p_created = Some c, p_coordinates = map plain_of_coordinate cs\<rparr>)
      | _ \<Rightarrow> None)"

text \<open>
  \<^verbatim>\<open>insertRoute\<close> on the heap: the parameter \<^verbatim>\<open>route\<close> is rebound to the address
  of the copy, the \<^verbatim>\<open>delete\<close> writes to the copy, and the store receives the clone
  of the copy. \<open>None\<close> is a heap that holds no route object at the address.
\<close>

definition insertRoute_heap ::
  "dom_exception option \<Rightarrow> dom_exception option \<Rightarrow> nat \<Rightarrow> heap \<Rightarrow> idb \<Rightarrow> (jsval promise \<times> heap \<times> idb) option" where
  "insertRoute_heap openFault addFault a h db =
     (case heap_get h a of
        Some (ObjectCell i c arr) \<Rightarrow>
          (let route = length h;
               h1 = h @ [ObjectCell i c arr];
               h2 = (if i = IsNull then h1[route := ObjectCell Missing c arr] else h1)
           in case structuredClone h2 route of
                None \<Rightarrow> None
              | Some v \<Rightarrow>
                  (case insertRoute_store openFault addFault v db of
                     (res, db') \<Rightarrow> Some (res, h2, db')))
      | _ \<Rightarrow> None)"


section \<open>Properties of the formatting helpers\<close>

lemma js_rem_nonneg_arg:
  fixes a b :: real
  shows "0 \<le> a \<Longrightarrow> 0 < b \<Longrightarrow> js_rem a b = a - b * of_int \<lfloor>a / b\<rfloor>"
  by (simp add: js_rem_def js_trunc_def not_less[symmetric] divide_less_0_iff)

lemma floor_div_of_int:
  fixes a :: real
  shows "0 < c \<Longrightarrow> \<lfloor>a / of_int c\<rfloor> = \<lfloor>a\<rfloor> div c"
  by (simp add: floor_divide_real_eq_div)

lemma floor_js_rem:
  fixes a :: real
  assumes "0 \<le> a" "0 < c"
  shows "\<lfloor>js_rem a (of_int c)\<rfloor> = \<lfloor>a\<rfloor> mod c"
proof -
  have "js_rem a (of_int c) = a - of_int (c * (\<lfloor>a\<rfloor> div c))"
    using assms by (simp add: js_rem_nonneg_arg floor_div_of_int)
  then have "\<lfloor>js_rem a (of_int c)\<rfloor> = \<lfloor>a\<rfloor> - c * (\<lfloor>a\<rfloor> div c)"
    by (simp only: floor_diff_of_int)
  then show ?thesis by (simp add: minus_mult_div_eq_mod)
qed

lemma js_rem_nonneg:
  fixes a :: real
  assumes "0 \<le> a" "0 < c"
  shows "0 \<le> js_rem a (of_int c)"
proof -
  have "0 \<le> \<lfloor>a\<rfloor> mod c" using assms by simp
  then have "0 \<le> \<lfloor>js_rem a (of_int c)\<rfloor>" using assms by (simp add: floor_js_rem)
  then show ?thesis by simp
qed

lemma humanizeSeconds_step_emit:
  fixes x :: real
  assumes "0 \<le> x" "0 < c"
  shows "humanizeSeconds_step (u, of_int c) (s, x) = (emit s (\<lfloor>x\<rfloor> div c) u, js_rem x (of_int c))"
  using assms by (simp add: humanizeSeconds_step_def emit_def floor_div_of_int Let_def)

lemma humanizeSeconds_emit:
  fixes n :: real
  assumes "0 \<le> n"
  shows "humanizeSeconds n =
    emit (emit (emit (emit [] (\<lfloor>n\<rfloor> div 86400) ''d'') (\<lfloor>n\<rfloor> mod 86400 div 3600) ''h'')
       (\<lfloor>n\<rfloor> mod 3600 div 60) ''m'') (\<lfloor>n\<rfloor> mod 60 div 1) ''s''"
proof -
  define n1 where "n1 = js_rem n 86400"
  define n2 where "n2 = js_rem n1 3600"
  define n3 where "n3 = js_rem n2 60"
  have p1: "0 \<le> n1" and f1: "\<lfloor>n1\<rfloor> = \<lfloor>n\<rfloor> mod 86400"
    using assms js_rem_nonneg [of n 86400] floor_js_rem [of n 86400] by (simp_all add: n1_def)
  have p2: "0 \<le> n2" and f2: "\<lfloor>n2\<rfloor> = \<lfloor>n1\<rfloor> mod 3600"
    using p1 js_rem_nonneg [of n1 3600] floor_js_rem [of n1 3600] by (simp_all add: n2_def)
  have p3: "0 \<le> n3" and f3: "\<lfloor>n3\<rfloor> = \<lfloor>n2\<rfloor> mod 60"
    using p2 js_rem_nonneg [of n2 60] floor_js_rem [of n2 60] by (simp_all add: n3_def)
  have g2: "\<lfloor>n2\<rfloor> = \<lfloor>n\<rfloor> mod 3600"
    unfolding f2 f1 by (rule mod_mod_cancel) simp
  have g3: "\<lfloor>n3\<rfloor> = \<lfloor>n\<rfloor> mod 60"
    unfolding f3 g2 by (rule mod_mod_cancel) simp
  have s1: "humanizeSeconds_step (''d'', 86400) ([], n) = (emit [] (\<lfloor>n\<rfloor> div 86400) ''d'', n1)"
    using humanizeSeconds_step_emit [of n 86400 "''d''" "[]"] assms by (simp add: n1_def)
  have s2: "humanizeSeconds_step (''h'', 3600) (s, n1) = (emit s (\<lfloor>n\<rfloor> mod 86400 div 3600) ''h'', n2)" for s
    using humanizeSeconds_step_emit [of n1 3600 "''h''" s] p1 by (simp add: n2_def f1)
  have s3: "humanizeSeconds_step (''m'', 60) (s, n2) = (emit s (\<lfloor>n\<rfloor> mod 3600 div 60) ''m'', n3)" for s
    using humanizeSeconds_step_emit [of n2 60 "''m''" s] p2 by (simp add: n3_def g2)
  have s4: "humanizeSeconds_step (''s'', 1) (s, n3) = (emit s (\<lfloor>n\<rfloor> mod 60 div 1) ''s'', js_rem n3 1)" for s
    using humanizeSeconds_step_emit [of n3 1 "''s''" s] p3 by (simp add: g3)
  show ?thesis
    by (simp add: humanizeSeconds_def secondUnits_def s1 s2 s3 s4)
qed

lemma emit_zero: "emit s 0 u = s"
  by (simp add: emit_def)

lemma emit_nonzero:
  "a \<noteq> 0 \<Longrightarrow> emit s a u = (if s = [] then toString a @ '' '' @ u else s @ '', '' @ toString a @ '' '' @ u)"
  by (simp add: emit_def)

lemma foldl_emit:
  "foldl (\<lambda>s p. emit s (fst p) (snd p)) s ps =
     (if s = [] then joinWith '', '' (map (\<lambda>p. toString (fst p) @ '' '' @ snd p) (filter (\<lambda>p. fst p \<noteq> 0) ps))
      else joinWith '', '' (s # map (\<lambda>p. toString (fst p) @ '' '' @ snd p) (filter (\<lambda>p. fst p \<noteq> 0) ps)))"
proof (induction ps arbitrary: s)
  case Nil
  then show ?case by simp
next
  case (Cons p ps)
  show ?case
  proof (cases "fst p = 0")
    case True
    then show ?thesis by (simp add: emit_zero Cons.IH)
  next
    case False
    let ?x = "toString (fst p) @ '' '' @ snd p"
    have ne: "?x \<noteq> []" by simp
    show ?thesis
    proof (cases "s = []")
      case True
      with False have "emit s (fst p) (snd p) = ?x" by (simp add: emit_nonzero)
      with False True ne show ?thesis
        by (simp add: Cons.IH)
    next
      case sne: False
      with False have e: "emit s (fst p) (snd p) = s @ '', '' @ ?x" by (simp add: emit_nonzero)
      have "joinWith '', '' ((s @ '', '' @ ?x) # ys) = joinWith '', '' (s # ?x # ys)" for ys
        by (cases ys) simp_all
      then show ?thesis
        using False sne by (simp add: e Cons.IH)
    qed
  qed
qed

lemma humanizeDuration_spec_emit:
  "humanizeDuration_spec n =
    emit (emit (emit (emit [] (\<lfloor>n\<rfloor> div 86400) ''d'') (\<lfloor>n\<rfloor> mod 86400 div 3600) ''h'')
       (\<lfloor>n\<rfloor> mod 3600 div 60) ''m'') (\<lfloor>n\<rfloor> mod 60 div 1) ''s''"
proof -
  have "humanizeDuration_spec n = foldl (\<lambda>s p. emit s (fst p) (snd p)) [] (components \<lfloor>n\<rfloor>)"
    unfolding humanizeDuration_spec_def by (simp only: foldl_emit if_True simp_thms)
  then show ?thesis by (simp only: components_def foldl_Cons foldl_Nil fst_conv snd_conv)
qed

lemma humanizeSeconds_3661: "humanizeSeconds 3661 = ''1 h, 1 m, 1 s''"
  by (simp add: humanizeSeconds_def secondUnits_def humanizeSeconds_step_def js_rem_def
      js_trunc_def toString_def digits.simps digit_char_def Let_def)

lemma humanizeSeconds_0: "humanizeSeconds 0 = []"
  by (simp add: humanizeSeconds_def secondUnits_def humanizeSeconds_step_def js_rem_def
      js_trunc_def Let_def)

text \<open>
  Claim C9. For a non-negative number of seconds, \<^verbatim>\<open>humanizeSeconds\<close> returns what
  the specification describes: the whole seconds decomposed with the divisors 86400,
  3600, 60 and 1, the non-zero components only, in descending unit order, joined by
  a comma and a space. For 3661 that is \<open>1 h, 1 m, 1 s\<close>, and for 0 it is the empty
  string.
\<close>

theorem humanizeSeconds_decomposes:
  assumes "0 \<le> seconds"
  shows "humanizeSeconds seconds = humanizeDuration_spec seconds
       \<and> humanizeSeconds 3661 = ''1 h, 1 m, 1 s''
       \<and> humanizeSeconds 0 = []"
  using assms
  by (simp only: humanizeSeconds_emit humanizeDuration_spec_emit humanizeSeconds_3661
      humanizeSeconds_0 simp_thms)

theorem humanizeSeconds_decomposes_witness:
  "(0::real) \<le> 90125.5
   \<and> humanizeSeconds 90125.5 = humanizeDuration_spec 90125.5
   \<and> humanizeDuration_spec 90125.5 = ''1 d, 1 h, 2 m, 5 s''"
proof -
  have h: "(0::real) \<le> 90125.5" by simp
  have "humanizeDuration_spec 90125.5 = ''1 d, 1 h, 2 m, 5 s''"
    by (simp add: humanizeDuration_spec_def components_def toString_def digits.simps digit_char_def)
  then show ?thesis using h humanizeSeconds_decomposes [OF h] by simp
qed


section \<open>Properties of the route metrics\<close>

text \<open>
  Claim C6. A route with fewer than two points has length 0, duration 0 and average
  speed 0.
\<close>

theorem short_route_metrics_zero:
  assumes "length (coordinates r) < 2"
  shows "getLength r = 0 \<and> getDuration r = 0 \<and> getAvgSpeed r = Finite 0"
  using assms by (simp add: getLength_def getDuration_def getAvgSpeed_def)

theorem short_route_metrics_zero_witness:
  "length (coordinates (add (Date 1000) (Route_new (Date 0) Missing None None) 52 13)) < 2
   \<and> getLength (add (Date 1000) (Route_new (Date 0) Missing None None) 52 13) = 0
   \<and> getDuration (add (Date 1000) (Route_new (Date 0) Missing None None) 52 13) = 0
   \<and> getAvgSpeed (add (Date 1000) (Route_new (Date 0) Missing None None) 52 13) = Finite 0"
proof -
  have h: "length (coordinates (add (Date 1000) (Route_new (Date 0) Missing None None) 52 13)) < 2"
    by (simp add: add_def Route_new_def)
  show ?thesis using h short_route_metrics_zero [OF h] by simp
qed


section \<open>Properties of the summary\<close>

lemma js_slice_last10:
  "js_slice (- 10) (- 1) xs = drop (length xs - 10) (butlast xs)"
proof (cases "length xs \<le> 10")
  case True
  have "nat (max (int (length xs) - 1) 0) = length xs - 1" by linarith
  with True have "js_slice (- 10) (- 1) xs = take (length xs - 1) xs"
    by (simp add: js_slice_def Let_def)
  then show ?thesis using True by (simp add: butlast_conv_take)
next
  case False
  then have "js_slice (- 10) (- 1) xs = take 9 (drop (length xs - 10) xs)"
    by (simp add: js_slice_def Let_def nat_diff_distrib')
  moreover have "drop (length xs - 10) (butlast xs) = take 9 (drop (length xs - 10) xs)"
    using False by (simp add: butlast_conv_take drop_take)
  ultimately show ?thesis by simp
qed

text \<open>
  Claim C3. The claim has the last-appended point among the rendered ones. In
  \<^verbatim>\<open>toHtml\<close> the slice \<^verbatim>\<open>slice(-10, -1)\<close> stops before the last element: the
  rendered coordinates are the last ten without the most recent one, newest first,
  and a route that holds the one point just added renders no point at all.
\<close>

theorem toHtml_omits_last_point:
  "toHtml_coordinates r = rev (drop (length (coordinates r) - 10) (butlast (coordinates r)))
   \<and> toHtml_coordinates (add (Date 1000) (Route_new (Date 0) Missing None None) 52 13) = []"
  by (simp add: toHtml_coordinates_def js_slice_last10 add_def Route_new_def)


section \<open>Properties of the record form\<close>

lemma coordinate_roundtrip:
  "Coordinate_new now (p_lat (plain_of_coordinate c)) (p_lon (plain_of_coordinate c))
     (p_timestamp (plain_of_coordinate c)) = c"
  by (simp add: Coordinate_new_def plain_of_coordinate_def)

lemma coordinates_roundtrip:
  "map (\<lambda>coord. Coordinate_new now (p_lat coord) (p_lon coord) (p_timestamp coord))
     (map plain_of_coordinate cs) = cs"
  by (induction cs) (simp_all add: coordinate_roundtrip)

lemma insertRoute_record_id:
  "p_id (insertRoute_record r) = (case route_id r of None \<Rightarrow> Missing | Some n \<Rightarrow> Number n)"
  by (simp add: insertRoute_record_def insertRoute_copy_def Let_def split: option.splits)

lemma insertRoute_record_created: "p_created (insertRoute_record r) = Some (created r)"
  by (simp add: insertRoute_record_def insertRoute_copy_def Let_def)

lemma insertRoute_record_coordinates:
  "p_coordinates (insertRoute_record r) = map plain_of_coordinate (coordinates r)"
  by (simp add: insertRoute_record_def insertRoute_copy_def Let_def)

text \<open>
  Claim C2. Turning a route into the record that \<^verbatim>\<open>insertRoute\<close> hands to the
  store and rebuilding it with \<^verbatim>\<open>fromPlainObject\<close> gives the route back: the same
  id (a \<^verbatim>\<open>null\<close> id too), the same creation date and the same points in the same
  order, whatever the clock reads.
\<close>

theorem fromPlainObject_insertRoute_record: "fromPlainObject now (insertRoute_record r) = r"
proof -
  have "fromPlainObject now (insertRoute_record r) =
        \<lparr>route_id = route_id r, created = created r, coordinates = coordinates r\<rparr>"
    unfolding fromPlainObject_def Let_def insertRoute_record_coordinates
      insertRoute_record_created insertRoute_record_id coordinates_roundtrip
    by (simp add: Route_new_def split: option.splits)
  then show ?thesis by simp
qed


section \<open>Properties of the route database\<close>

lemma errorCode_absent: "get_property (failed_request e) ''errorCode'' = Undefined"
  by (simp add: get_property_def failed_request_def)

lemma error_present: "get_property (failed_request e) ''error'' = ExnV e"
  by (simp add: get_property_def failed_request_def)

lemma set_put_record: "set (put_record e xs) = insert e (set xs)"
  by (induction xs) auto

lemma insertRoute_record_not_null: "p_id (insertRoute_record r) \<noteq> IsNull"
  by (simp add: insertRoute_record_id split: option.splits)

lemma store_add_cases:
  assumes "p_id v \<noteq> IsNull" "store_add fault v db = (out, db1)"
  shows "(\<exists>k. out = ReqSuccess k \<and> add_key v db = Some k \<and> k \<notin> set (map fst (records db))
              \<and> records db1 = put_record (k, v\<lparr>p_id := Number k\<rparr>) (records db)
              \<and> connections db1 = connections db)
       \<or> (\<exists>e. out = ReqError e \<and> (fault = Some e \<or> e = DOMException ''ConstraintError'') \<and> db1 = db)"
  using assms
  by (auto simp: store_add_def split: option.splits if_splits)

lemma add_key_connections: "add_key v (db\<lparr>connections := c\<rparr>) = add_key v db"
  by (simp add: add_key_def split: id_field.splits)

lemma insertRoute_cases:
  assumes "insertRoute openFault addFault r db = (res, db')"
  obtains
    (stored) k where "res = Fulfilled Undefined" "add_key (insertRoute_record r) db = Some k"
      "k \<notin> set (map fst (records db))"
      "records db' = put_record (k, (insertRoute_record r)\<lparr>p_id := Number k\<rparr>) (records db)"
      "connections db' = connections db"
  | (add_failed) e where "res = Rejected (Message ''Error adding route: '' (ExnV e))" "openFault = None"
      "addFault = Some e \<or> e = DOMException ''ConstraintError''" "db' = db"
  | (open_failed) e where "res = Rejected (Message ''Database error: '' Undefined)" "openFault = Some e" "db' = db"
proof (cases openFault)
  case (Some e)
  with assms have "res = Rejected (Message ''Database error: '' Undefined)" "db' = db"
    by (auto simp add: insertRoute_def insertRoute_store_def open_db_def errorCode_absent)
  with Some show ?thesis by (intro open_failed [of e])
next
  case None
  obtain out db1 where sa: "store_add addFault (insertRoute_record r) (db\<lparr>connections := connections db + 1\<rparr>) = (out, db1)"
    by (cases "store_add addFault (insertRoute_record r) (db\<lparr>connections := connections db + 1\<rparr>)")
  let ?db1 = "db\<lparr>connections := connections db + 1\<rparr>"
  from store_add_cases [OF insertRoute_record_not_null sa]
  consider
    (ok) k where "out = ReqSuccess k" "add_key (insertRoute_record r) ?db1 = Some k"
      "k \<notin> set (map fst (records ?db1))"
      "records db1 = put_record (k, (insertRoute_record r)\<lparr>p_id := Number k\<rparr>) (records ?db1)"
      "connections db1 = connections ?db1"
  | (err) e where "out = ReqError e" "addFault = Some e \<or> e = DOMException ''ConstraintError''" "db1 = ?db1"
    by blast
  then show ?thesis
  proof cases
    case ok
    with assms None sa have "res = Fulfilled Undefined" "db' = close_db db1"
      by (auto simp add: insertRoute_def insertRoute_store_def open_db_def insertRoute_request_def)
    with ok show ?thesis
      by (intro stored [of k]) (simp_all add: close_db_def add_key_connections)
  next
    case err
    with assms None sa have "res = Rejected (Message ''Error adding route: '' (ExnV e))" "db' = close_db db1"
      by (auto simp add: insertRoute_def insertRoute_store_def open_db_def insertRoute_request_def
          error_present)
    with err None show ?thesis
      by (intro add_failed [of e]) (simp_all add: close_db_def)
  qed
qed

lemma record_update_id:
  "p_id v = Number n \<Longrightarrow> v\<lparr>p_id := Number n\<rparr> = v"
  by (cases v) simp

lemma insertRoute_connections:
  "connections (snd (insertRoute openFault addFault r db)) = connections db"
proof -
  obtain res db' where e: "insertRoute openFault addFault r db = (res, db')"
    by (cases "insertRoute openFault addFault r db")
  then have "connections db' = connections db"
    by (cases rule: insertRoute_cases) simp_all
  with e show ?thesis by simp
qed

text \<open>Two runs of \<^verbatim>\<open>insertRoute\<close> on the empty database, without faults.\<close>

lemma insertRoute_example_new:
  "insertRoute None None \<lparr>route_id = None, created = Date 0, coordinates = []\<rparr> emptyDb
   = (Fulfilled Undefined,
      \<lparr>records = [(1, \<lparr>p_id = Number 1, p_created = Some (Date 0), p_coordinates = []\<rparr>)],
       keyGenerator = 2, connections = 0\<rparr>)"
  by code_simp

lemma insertRoute_example_numbered:
  "insertRoute None None \<lparr>route_id = Some 5, created = Date 0, coordinates = []\<rparr> emptyDb
   = (Fulfilled Undefined,
      \<lparr>records = [(5, \<lparr>p_id = Number 5, p_created = Some (Date 0), p_coordinates = []\<rparr>)],
       keyGenerator = 6, connections = 0\<rparr>)"
  by code_simp

text \<open>
  Claim C1, as the specification states it, fails: a route that comes in with the id 5
  is handed to the store with that id, and the store files it under the key 5.
\<close>

theorem insertRoute_strips_id_counterexample:
  "p_id (insertRoute_record \<lparr>route_id = Some 5, created = Date 0, coordinates = []\<rparr>) \<noteq> Missing
   \<and> map fst (records (snd (insertRoute None None \<lparr>route_id = Some 5, created = Date 0, coordinates = []\<rparr> emptyDb))) = [5]"
  by (simp add: insertRoute_example_numbered insertRoute_record_id)

text \<open>
  Claim C1, amended. \<^verbatim>\<open>insertRoute\<close> removes the id only when it is
  \<^verbatim>\<open>null\<close>. For a route that carries a number as id, the record handed to the
  store carries that number, and when the insert succeeds the record is in the store
  under that very id.
\<close>

theorem insertRoute_keeps_numeric_id:
  assumes "route_id r = Some n" "insertRoute openFault addFault r db = (Fulfilled v, db')"
  shows "p_id (insertRoute_record r) = Number n
       \<and> (n, insertRoute_record r) \<in> set (records db')
       \<and> p_id (insertRoute_record (r\<lparr>route_id := None\<rparr>)) = Missing"
proof -
  have i: "p_id (insertRoute_record r) = Number n"
    using assms(1) by (simp add: insertRoute_record_id)
  have key: "add_key (insertRoute_record r) db = Some n"
    using i by (simp add: add_key_def)
  have "(n, insertRoute_record r) \<in> set (records db')"
    using assms(2)
  proof (cases rule: insertRoute_cases)
    case (stored k)
    with key have "k = n" by simp
    with stored(4) show ?thesis
      by (simp add: set_put_record record_update_id [OF i])
  qed simp_all
  moreover have "p_id (insertRoute_record (r\<lparr>route_id := None\<rparr>)) = Missing"
    by (simp add: insertRoute_record_id)
  ultimately show ?thesis using i by simp
qed

theorem insertRoute_keeps_numeric_id_witness:
  "route_id \<lparr>route_id = Some 5, created = Date 0, coordinates = []\<rparr> = Some 5
   \<and> insertRoute None None \<lparr>route_id = Some 5, created = Date 0, coordinates = []\<rparr> emptyDb
     = (Fulfilled Undefined,
        \<lparr>records = [(5, \<lparr>p_id = Number 5, p_created = Some (Date 0), p_coordinates = []\<rparr>)],
         keyGenerator = 6, connections = 0\<rparr>)
   \<and> p_id (insertRoute_record \<lparr>route_id = Some 5, created = Date 0, coordinates = []\<rparr>) = Number 5
   \<and> (5 :: int, insertRoute_record \<lparr>route_id = Some 5, created = Date 0, coordinates = []\<rparr>)
       \<in> set [(5, \<lparr>p_id = Number 5, p_created = Some (Date 0), p_coordinates = []\<rparr>)]"
proof -
  have h1: "route_id \<lparr>route_id = Some 5, created = Date 0, coordinates = []\<rparr> = Some 5" by simp
  note h2 = insertRoute_example_numbered
  from insertRoute_keeps_numeric_id [OF h1 h2] h1 h2 show ?thesis
    by (simp only: idb.simps simp_thms)
qed

text \<open>
  Claim C4, as the specification states it, fails: the insert of a route without id into
  the empty database assigns the id 1, and the call fulfils with \<^verbatim>\<open>undefined\<close>.
\<close>

theorem insertRoute_returns_id_counterexample:
  "fst (insertRoute None None \<lparr>route_id = None, created = Date 0, coordinates = []\<rparr> emptyDb) = Fulfilled Undefined
   \<and> map fst (records (snd (insertRoute None None \<lparr>route_id = None, created = Date 0, coordinates = []\<rparr> emptyDb))) = [1]
   \<and> fst (insertRoute None None \<lparr>route_id = None, created = Date 0, coordinates = []\<rparr> emptyDb) \<noteq> Fulfilled (NumV 1)"
  by (simp add: insertRoute_example_new)

text \<open>
  Claim C4, amended. For a route without id, a successful \<^verbatim>\<open>insertRoute\<close> stores
  the record under the key generator's current number, which no record had before, and
  fulfils with \<^verbatim>\<open>undefined\<close>: the assigned id does not reach the caller.
\<close>

theorem insertRoute_fulfils_undefined:
  assumes "route_id r = None" "insertRoute openFault addFault r db = (Fulfilled v, db')"
  shows "v = Undefined
       \<and> keyGenerator db \<notin> set (map fst (records db))
       \<and> (keyGenerator db, (insertRoute_record r)\<lparr>p_id := Number (keyGenerator db)\<rparr>) \<in> set (records db')"
  using assms(2)
proof (cases rule: insertRoute_cases)
  case (stored k)
  have "p_id (insertRoute_record r) = Missing"
    using assms(1) by (simp add: insertRoute_record_id)
  with stored(2) have "k = keyGenerator db"
    by (simp add: add_key_def split: if_splits)
  with stored show ?thesis by (simp add: set_put_record)
qed simp_all

theorem insertRoute_fulfils_undefined_witness:
  "route_id \<lparr>route_id = None, created = Date 0, coordinates = []\<rparr> = None
   \<and> insertRoute None None \<lparr>route_id = None, created = Date 0, coordinates = []\<rparr> emptyDb
     = (Fulfilled Undefined,
        \<lparr>records = [(1, \<lparr>p_id = Number 1, p_created = Some (Date 0), p_coordinates = []\<rparr>)],
         keyGenerator = 2, connections = 0\<rparr>)
   \<and> Undefined = Undefined
   \<and> (keyGenerator emptyDb,
       (insertRoute_record \<lparr>route_id = None, created = Date 0, coordinates = []\<rparr>)\<lparr>p_id := Number (keyGenerator emptyDb)\<rparr>)
       \<in> set [(1, \<lparr>p_id = Number 1, p_created = Some (Date 0), p_coordinates = []\<rparr>)]"
proof -
  have h1: "route_id \<lparr>route_id = None, created = Date 0, coordinates = []\<rparr> = None" by simp
  note h2 = insertRoute_example_new
  from insertRoute_fulfils_undefined [OF h1 h2] h1 h2 show ?thesis
    by (simp only: idb.simps simp_thms)
qed

text \<open>
  Claim C5. The claim has every failure surface an error that carries the underlying
  cause. When the open request fails, the handler of \<^verbatim>\<open>#open\<close> appends
  \<^verbatim>\<open>event.target.errorCode\<close>, a property that the request does not have: whatever
  the exception was, \<^verbatim>\<open>insertRoute\<close> rejects with the same text,
  \<open>Database error: undefined\<close>, and the database is as it was. The handler of the
  add request appends \<^verbatim>\<open>request.error\<close>, the exception itself.
\<close>

theorem insertRoute_open_failure_hides_cause:
  "insertRoute (Some e) addFault r db = (Rejected (Message ''Database error: '' Undefined), db)
   \<and> ''Database error: '' @ js_string render Undefined = ''Database error: undefined''
   \<and> fst (insertRoute None (Some e) r db) = Rejected (Message ''Error adding route: '' (ExnV e))"
proof -
  have "insertRoute (Some e) addFault r db = (Rejected (Message ''Database error: '' Undefined), db)"
    by (simp add: insertRoute_def insertRoute_store_def open_db_def errorCode_absent)
  moreover have "''Database error: '' @ js_string render Undefined = ''Database error: undefined''"
    by (simp add: js_string_def)
  moreover have "fst (insertRoute None (Some e) r db) = Rejected (Message ''Error adding route: '' (ExnV e))"
    by (simp add: insertRoute_def insertRoute_store_def open_db_def insertRoute_request_def
        store_add_def insertRoute_record_not_null error_present)
  ultimately show ?thesis by simp
qed

text \<open>
  Claim C7. The claim has every call release its connection. \<^verbatim>\<open>listRoutes\<close>
  opens a connection and never closes it: after the call one more connection is open
  than before, whether the read succeeds or fails. \<^verbatim>\<open>insertRoute\<close> does close
  its connection on both paths.
\<close>

theorem listRoutes_leaves_connection_open:
  "connections (snd (listRoutes now None readFault db)) = connections db + 1
   \<and> connections (snd (insertRoute openFault addFault r db)) = connections db"
  by (simp add: insertRoute_connections listRoutes_def open_db_def split: option.splits)


section \<open>The caller's object is left alone\<close>

lemma heap_get_append: "heap_get h a = Some x \<Longrightarrow> heap_get (h @ [y]) a = Some x"
  by (auto simp: heap_get_def nth_append split: if_splits)

lemma heap_get_new: "heap_get (h @ [y]) (length h) = Some y"
  by (simp add: heap_get_def)

lemma readCoordinate_append:
  "readCoordinate h a = Some c \<Longrightarrow> readCoordinate (h @ [y]) a = Some c"
proof -
  assume r: "readCoordinate h a = Some c"
  then obtain x where g: "heap_get h a = Some x"
    by (cases "heap_get h a") (simp_all add: readCoordinate_def)
  from r show ?thesis
    by (simp add: readCoordinate_def g heap_get_append [OF g])
qed

lemma those_map_mono:
  assumes "\<And>a c. f a = Some c \<Longrightarrow> g a = Some c"
  shows "those (map f refs) = Some cs \<Longrightarrow> those (map g refs) = Some cs"
proof (induction refs arbitrary: cs)
  case Nil
  then show ?case by simp
next
  case (Cons a refs)
  from Cons.prems obtain c cs' where fa: "f a = Some c" and rest: "those (map f refs) = Some cs'"
    and cs: "cs = c # cs'"
    by (auto split: option.splits)
  from assms [OF fa] Cons.IH [OF rest] cs show ?case by simp
qed

lemma readCoordinates_append:
  assumes "readCoordinates h arr = Some cs"
  shows "readCoordinates (h @ [y]) arr = Some cs"
proof -
  from assms obtain refs where g: "heap_get h arr = Some (ArrayCell refs)"
    and t: "those (map (readCoordinate h) refs) = Some cs"
    by (auto simp: readCoordinates_def split: option.splits cell.splits)
  have "those (map (readCoordinate (h @ [y])) refs) = Some cs"
    using t by (rule those_map_mono [rotated]) (rule readCoordinate_append)
  then show ?thesis
    by (simp add: readCoordinates_def heap_get_append [OF g])
qed

lemma readRoute_cases:
  assumes "readRoute h a = Some r"
  obtains i c arr where "heap_get h a = Some (ObjectCell i c arr)"
    "readCoordinates h arr = Some (coordinates r)" "created r = c"
    "i = (case route_id r of None \<Rightarrow> IsNull | Some n \<Rightarrow> Number n)"
  using assms
  by (auto simp: readRoute_def split: option.splits cell.splits id_field.splits)

lemma readRoute_append:
  assumes "readRoute h a = Some r"
  shows "readRoute (h @ [y]) a = Some r"
  using assms
proof (cases rule: readRoute_cases)
  case (1 i c arr)
  have "readRoute (h @ [y]) a = readRoute h a"
    by (simp add: readRoute_def heap_get_append [OF 1(1)] 1(1) 1(2) readCoordinates_append [OF 1(2)])
  with assms show ?thesis by simp
qed

lemma structuredClone_copy:
  assumes "readRoute h a = Some r" "heap_get h a = Some (ObjectCell i c arr)"
  shows "structuredClone (h @ [ObjectCell (if i = IsNull then Missing else i) c arr]) (length h)
         = Some (insertRoute_record r)"
  using assms(1)
proof (cases rule: readRoute_cases)
  case (1 i' c' arr')
  with assms(2) have eq: "i' = i" "c' = c" "arr' = arr" by simp_all
  have rec: "insertRoute_record r =
      \<lparr>p_id = (if i = IsNull then Missing else i), p_created = Some c,
       p_coordinates = map plain_of_coordinate (coordinates r)\<rparr>"
    using 1(3,4) eq
    by (simp add: insertRoute_record_def insertRoute_copy_def Let_def split: option.splits)
  show ?thesis
    using readCoordinates_append [OF 1(2)] eq
    by (simp add: structuredClone_def heap_get_new rec)
qed

lemma readRoute_example:
  "readRoute [CoordinateCell 52 13 (Date 1000), ArrayCell [0], ObjectCell IsNull (Date 0) 1] 2
   = Some \<lparr>route_id = None, created = Date 0, coordinates = [\<lparr>lat = 52, lon = 13, timestamp = Date 1000\<rparr>]\<rparr>"
  by code_simp

text \<open>
  Claim C10. \<^verbatim>\<open>insertRoute\<close> works on a copy. When the caller's address holds a
  route, the call behaves as \<^verbatim>\<open>insertRoute\<close> on that route does, every cell of the
  heap that existed before the call is unchanged, and the caller's address still holds
  the same route: the same id (a \<^verbatim>\<open>null\<close> id stays \<^verbatim>\<open>null\<close>), the same
  creation date and the same points.
\<close>

theorem insertRoute_heap_frame:
  assumes "readRoute h a = Some r"
  shows "\<exists>h'. insertRoute_heap openFault addFault a h db =
               Some (fst (insertRoute openFault addFault r db), h', snd (insertRoute openFault addFault r db))
            \<and> take (length h) h' = h
            \<and> readRoute h' a = Some r"
  using assms
proof (cases rule: readRoute_cases)
  case (1 i c arr)
  let ?h' = "h @ [ObjectCell (if i = IsNull then Missing else i) c arr]"
  have clone: "structuredClone ?h' (length h) = Some (insertRoute_record r)"
    using assms 1(1) by (rule structuredClone_copy)
  have "insertRoute_heap openFault addFault a h db =
          Some (fst (insertRoute openFault addFault r db), ?h', snd (insertRoute openFault addFault r db))"
  proof (cases "i = IsNull")
    case True
    with clone have "structuredClone (h @ [ObjectCell Missing c arr]) (length h) = Some (insertRoute_record r)"
      by simp
    with True show ?thesis
      by (simp add: insertRoute_heap_def 1(1) insertRoute_def split: prod.splits)
  next
    case False
    with clone have "structuredClone (h @ [ObjectCell i c arr]) (length h) = Some (insertRoute_record r)"
      by simp
    with False show ?thesis
      by (simp add: insertRoute_heap_def 1(1) insertRoute_def split: prod.splits)
  qed
  moreover have "take (length h) ?h' = h" by simp
  moreover have "readRoute ?h' a = Some r" using assms by (rule readRoute_append)
  ultimately show ?thesis by blast
qed

theorem insertRoute_heap_frame_witness:
  "readRoute [CoordinateCell 52 13 (Date 1000), ArrayCell [0], ObjectCell IsNull (Date 0) 1] 2
   = Some \<lparr>route_id = None, created = Date 0, coordinates = [\<lparr>lat = 52, lon = 13, timestamp = Date 1000\<rparr>]\<rparr>
   \<and> (\<exists>h'. insertRoute_heap None None 2
               [CoordinateCell 52 13 (Date 1000), ArrayCell [0], ObjectCell IsNull (Date 0) 1] emptyDb
             = Some (fst (insertRoute None None \<lparr>route_id = None, created = Date 0,
                            coordinates = [\<lparr>lat = 52, lon = 13, timestamp = Date 1000\<rparr>]\<rparr> emptyDb),
                     h',
                     snd (insertRoute None None \<lparr>route_id = None, created = Date 0,
                            coordinates = [\<lparr>lat = 52, lon = 13, timestamp = Date 1000\<rparr>]\<rparr> emptyDb))
            \<and> take 3 h' = [CoordinateCell 52 13 (Date 1000), ArrayCell [0], ObjectCell IsNull (Date 0) 1]
            \<and> readRoute h' 2 = Some \<lparr>route_id = None, created = Date 0,
                            coordinates = [\<lparr>lat = 52, lon = 13, timestamp = Date 1000\<rparr>]\<rparr>)"
proof -
  note h = readRoute_example
  have "length [CoordinateCell 52 13 (Date 1000), ArrayCell [0], ObjectCell IsNull (Date 0) 1] = 3"
    by simp
  with insertRoute_heap_frame [OF h, of None None emptyDb] h show ?thesis
    by (simp only: simp_thms)
qed

end
